theory Spec2Isabelle
  imports Complex_Main "HOL-Library.Multiset"
begin

section \<open>Data model (src/index.tsx, lines 16-56)\<close>

datatype AppStep = StepPrompt | StepOutline | StepLoading | StepPresentation

datatype SlideLayout = TextLeft | TextRight | ImageFull

datatype ChartType = Bar | Line | Pie

record Dataset =
  label :: string
  data :: "int list"

record ChartData =
  type :: ChartType
  labels :: "string list"
  datasets :: "Dataset list"

text \<open>
  An optional property (\<^verbatim>\<open>imageUrl?\<close>, \<^verbatim>\<open>speakerNotes?\<close>, \<^verbatim>\<open>chartData?\<close>) is an
  \<open>option\<close>: \<open>None\<close> is JavaScript's \<^verbatim>\<open>undefined\<close>, whether the property is absent
  or holds \<^verbatim>\<open>undefined\<close>.
\<close>

record Slide =
  title :: string
  content :: "string list"
  imagePrompt :: string
  imageUrl :: "string option"
  speakerNotes :: "string option"
  layout :: SlideLayout
  chartData :: "ChartData option"

record Outline =
  otitle :: string
  points :: "string list"

record ThemeColors =
  bg_primary :: string
  bg_secondary :: string
  text_primary :: string
  text_secondary :: string
  accent_primary :: string

record CustomTheme =
  id_t :: string
  name :: string
  colors :: ThemeColors

text \<open>
  What the model makes of a JavaScript failure: a \<^verbatim>\<open>TypeError\<close> thrown where nothing
  catches it (inside a state updater), a deck that stops being a sequence of slides
  (an \<^verbatim>\<open>undefined\<close> hole or a partial object written into the array), and a value the
  model has no counterpart for (a number with a fraction, a code unit above 255).
\<close>

datatype error = TypeError | MalformedDeck | OutsideModel

text \<open>
  Slide objects live in a store and the \<^verbatim>\<open>slides\<close> array holds references to them,
  since the handlers copy the array (\<^verbatim>\<open>[...slides]\<close>) but often assign to the
  properties of the objects it shares with the previous array. A reference is an index
  into \<open>heap\<close>; a new object is appended.
\<close>

datatype LogEntry = LogError string | LogWarn string

record AppState =
  heap :: "Slide list"
  slides :: "nat list"
  currentSlideIndex :: int
  theme :: string
  customThemes :: "CustomTheme list"
  isReadOnlyView :: bool
  appStep :: AppStep
  topic :: string
  outlines :: "Outline list"
  selectedOutlineIndex :: "int option"
  progress :: rat
  progressText :: string
  progressLog :: "rat list"
  slideActionLoading :: "string \<times> int \<Rightarrow> bool option"
  dragItem :: "int option"
  dragOverItem :: "int option"
  locationHash :: string
  shareUrl :: string
  isShareModalOpen :: bool
  console :: "LogEntry list"

text \<open>
  \<open>progressLog\<close> records the arguments of the successive \<^verbatim>\<open>setProgress\<close> calls and
  \<open>console\<close> the \<^verbatim>\<open>console.error\<close> and \<^verbatim>\<open>console.warn\<close> calls, oldest first. The
  key \<^verbatim>\<open>`${action}-${index}`\<close> of \<open>slideActionLoading\<close> is kept as the pair it is
  built from.
\<close>

text \<open>The deck a consumer sees through an array of references, in a given store.\<close>

definition deckOf :: "Slide list \<Rightarrow> nat list \<Rightarrow> Slide list" where
  "deckOf h arr = map (\<lambda>r. h ! r) arr"

text \<open>The deck of a state: its slide records, in order.\<close>

definition deck :: "AppState \<Rightarrow> Slide list" where
  "deck st = deckOf (heap st) (slides st)"

section \<open>Array primitives\<close>

text \<open>
  \<^verbatim>\<open>Array.prototype.splice(start, deleteCount, ...items)\<close>: a negative start counts
  from the end, a start beyond the end is the end, and the delete count is clamped to
  what is left. Returns the removed elements and the array after the call.
\<close>

definition splice :: "'a list \<Rightarrow> int \<Rightarrow> int \<Rightarrow> 'a list \<Rightarrow> 'a list \<times> 'a list" where
  "splice xs start deleteCount items =
     (let len = int (length xs);
          s = (if start < 0 then max (len + start) 0 else min start len);
          dc = min (max deleteCount 0) (len - s)
      in (take (nat dc) (drop (nat s) xs),
          take (nat s) xs @ items @ drop (nat (s + dc)) xs))"

text \<open>\<^verbatim>\<open>xs.filter((_, i) => i !== index)\<close>\<close>

definition filterNotIndex :: "'a list \<Rightarrow> int \<Rightarrow> 'a list" where
  "filterNotIndex xs index = map snd (filter (\<lambda>(i, _). int i \<noteq> index) (enumerate 0 xs))"

section \<open>Slide store: delete and reorder (src/index.tsx, lines 682-715)\<close>

definition handleDeleteSlide :: "AppState \<Rightarrow> int \<Rightarrow> AppState" where
  "handleDeleteSlide st index =
     (if int (length (slides st)) \<le> 1 \<or> isReadOnlyView st then st
      else
        let newSlides = filterNotIndex (slides st) index;
            st1 = st\<lparr>slides := newSlides\<rparr>
        in if currentSlideIndex st \<ge> index
           then st1\<lparr>currentSlideIndex := max 0 (currentSlideIndex st - 1)\<rparr>
           else st1)"

text \<open>
  The new cursor of \<^verbatim>\<open>handleDragSort\<close>, computed from the two drag references and
  the cursor (lines 701-708).
\<close>

definition newCurrentIndex :: "int \<Rightarrow> int \<Rightarrow> int \<Rightarrow> int" where
  "newCurrentIndex src dst cur =
     (if cur = src then dst
      else if src < cur \<and> dst \<ge> cur then cur - 1
      else if src > cur \<and> dst \<le> cur then cur + 1
      else cur)"

text \<open>
  When the source is beyond the end, \<^verbatim>\<open>splice(src, 1)[0]\<close> is \<^verbatim>\<open>undefined\<close>
  and the second splice writes that into the array: \<open>MalformedDeck\<close>.
\<close>

definition handleDragSort :: "AppState \<Rightarrow> error + AppState" where
  "handleDragSort st =
     (case (dragItem st, dragOverItem st) of
        (Some src, Some dst) \<Rightarrow>
          if src = dst \<or> isReadOnlyView st then Inr st
          else
            (case splice (slides st) src 1 [] of
               ([], _) \<Rightarrow> Inl MalformedDeck
             | (draggedItemContent # _, removedAt) \<Rightarrow>
                 Inr (st\<lparr>slides := snd (splice removedAt dst 0 [draggedItemContent]),
                         currentSlideIndex := newCurrentIndex src dst (currentSlideIndex st),
                         dragItem := None,
                         dragOverItem := None\<rparr>))
      | _ \<Rightarrow> Inr st)"

section \<open>String primitives\<close>

text \<open>
  A string is a sequence of code units below 256. \<^verbatim>\<open>trim\<close> strips white space and line
  terminators, of which these seven are below 256.
\<close>

definition isWhiteSpace :: "char \<Rightarrow> bool" where
  "isWhiteSpace c = (c \<in> set [CHR 0x09, CHR 0x0A, CHR 0x0B, CHR 0x0C, CHR 0x0D, CHR 0x20, CHR 0xA0])"

definition trim :: "string \<Rightarrow> string" where
  "trim s = rev (dropWhile isWhiteSpace (rev (dropWhile isWhiteSpace s)))"

text \<open>\<^verbatim>\<open>s.split(c)\<close> for a separator of one character: the empty string gives one empty piece.\<close>

fun split :: "char \<Rightarrow> string \<Rightarrow> string list" where
  "split c [] = [[]]"
| "split c (x # xs) =
     (if x = c then [] # split c xs
      else (case split c xs of [] \<Rightarrow> [[x]] | l # ls \<Rightarrow> (x # l) # ls))"

definition startsWith :: "string \<Rightarrow> string \<Rightarrow> bool" where
  "startsWith s p = (take (length p) s = p)"

definition toLower :: "char \<Rightarrow> char" where
  "toLower c =
     (let n = (of_char c :: nat)
      in if (65 \<le> n \<and> n \<le> 90) \<or> (192 \<le> n \<and> n \<le> 222 \<and> n \<noteq> 215) then char_of (n + 32) else c)"

definition toLowerCase :: "string \<Rightarrow> string" where
  "toLowerCase s = map toLower s"

text \<open>\<^verbatim>\<open>line.replace(/title:/i, '')\<close>: the first match, whatever its case, is removed.\<close>

fun removeFirstTitle :: "string \<Rightarrow> string" where
  "removeFirstTitle [] = []"
| "removeFirstTitle (c # cs) =
     (if startsWith (toLowerCase (c # cs)) ''title:'' then drop 6 (c # cs)
      else c # removeFirstTitle cs)"

text \<open>\<^verbatim>\<open>xs[i]\<close>: \<open>None\<close> is \<^verbatim>\<open>undefined\<close>.\<close>

definition elemAt :: "'a list \<Rightarrow> int \<Rightarrow> 'a option" where
  "elemAt xs i = (if 0 \<le> i \<and> i < int (length xs) then Some (xs ! nat i) else None)"

section \<open>Editing a field (src/index.tsx, lines 660-665)\<close>

text \<open>A field of \<^verbatim>\<open>keyof Slide\<close> with the value to store in it.\<close>

datatype FieldUpdate =
    SetTitle string
  | SetContent "string list"
  | SetImagePrompt string
  | SetImageUrl "string option"
  | SetSpeakerNotes "string option"
  | SetLayout SlideLayout
  | SetChartData "ChartData option"

fun setField :: "FieldUpdate \<Rightarrow> Slide \<Rightarrow> Slide" where
  "setField (SetTitle v) s = s\<lparr>title := v\<rparr>"
| "setField (SetContent v) s = s\<lparr>content := v\<rparr>"
| "setField (SetImagePrompt v) s = s\<lparr>imagePrompt := v\<rparr>"
| "setField (SetImageUrl v) s = s\<lparr>imageUrl := v\<rparr>"
| "setField (SetSpeakerNotes v) s = s\<lparr>speakerNotes := v\<rparr>"
| "setField (SetLayout v) s = s\<lparr>layout := v\<rparr>"
| "setField (SetChartData v) s = s\<lparr>chartData := v\<rparr>"

text \<open>
  \<open>cap\<close> is the \<^verbatim>\<open>slides\<close> array the handler's closure holds: the array of the render
  that created the handler. The new record \<^verbatim>\<open>{ ...updatedSlides[index], [field]: value }\<close>
  is a new object. Beyond the end of the array the spread of \<^verbatim>\<open>undefined\<close> gives an
  object with the one field only, which is no slide.
\<close>

definition handleUpdateSlideFrom :: "nat list \<Rightarrow> AppState \<Rightarrow> int \<Rightarrow> FieldUpdate \<Rightarrow> error + AppState" where
  "handleUpdateSlideFrom cap st index fld =
     (if isReadOnlyView st then Inr st
      else (case elemAt cap index of
              None \<Rightarrow> Inl MalformedDeck
            | Some r \<Rightarrow>
                Inr (st\<lparr>heap := heap st @ [setField fld (heap st ! r)],
                        slides := cap[nat index := length (heap st)]\<rparr>)))"

text \<open>Called from the interface, the closure holds the array of the current state.\<close>

definition handleUpdateSlide :: "AppState \<Rightarrow> int \<Rightarrow> FieldUpdate \<Rightarrow> error + AppState" where
  "handleUpdateSlide st index fld = handleUpdateSlideFrom (slides st) st index fld"

section \<open>Regeneration actions (src/index.tsx, lines 236-238 and 395-541)\<close>





definition setActionLoading :: "string \<Rightarrow> int \<Rightarrow> bool \<Rightarrow> AppState \<Rightarrow> AppState" where
  "setActionLoading action index v st =
     st\<lparr>slideActionLoading := (slideActionLoading st)((action, index) \<mapsto> v)\<rparr>"

definition logError :: "string \<Rightarrow> AppState \<Rightarrow> AppState" where
  "logError msg st = st\<lparr>console := console st @ [LogError msg]\<rparr>"

definition logWarn :: "string \<Rightarrow> AppState \<Rightarrow> AppState" where
  "logWarn msg st = st\<lparr>console := console st @ [LogWarn msg]\<rparr>"

text \<open>Assignment to properties of the object behind a reference: \<^verbatim>\<open>updated[index].f = v\<close>.\<close>

definition assign :: "nat \<Rightarrow> (Slide \<Rightarrow> Slide) \<Rightarrow> AppState \<Rightarrow> AppState" where
  "assign r f st = st\<lparr>heap := (heap st)[r := f (heap st ! r)]\<rparr>"

definition dataUrl :: "string \<Rightarrow> string" where
  "dataUrl imageBytes = ''data:image/png;base64,'' @ imageBytes"








text \<open>
  \<^verbatim>\<open>handleEnhanceSlide\<close>. The response text is read by a fixed convention: the first line
  that starts with \<^verbatim>\<open>title:\<close> in any case gives the title, the lines that start with a
  dash give the bullets.
\<close>

definition responseLines :: "string \<Rightarrow> string list" where
  "responseLines responseText = filter (\<lambda>line. trim line \<noteq> []) (split (CHR 0x0A) responseText)"

definition parseTitle :: "string \<Rightarrow> string \<Rightarrow> string" where
  "parseTitle responseText currentTitle =
     (case find (\<lambda>line. startsWith (toLowerCase line) ''title:'') (responseLines responseText) of
        None \<Rightarrow> currentTitle
      | Some line \<Rightarrow>
          let t = trim (removeFirstTitle line) in if t = [] then currentTitle else t)"

definition parseBullets :: "string \<Rightarrow> string list" where
  "parseBullets responseText =
     map (\<lambda>line. trim (drop 1 (trim line)))
       (filter (\<lambda>line. startsWith (trim line) ''-'') (responseLines responseText))"

definition handleEnhanceSlide_start :: "nat list \<Rightarrow> int \<Rightarrow> AppState \<Rightarrow> AppState \<times> nat option" where
  "handleEnhanceSlide_start cap index st =
     (if isReadOnlyView st then (st, None)
      else
        let st1 = setActionLoading ''enhance'' index True st
        in (case elemAt cap index of
              None \<Rightarrow> (setActionLoading ''enhance'' index False
                         (logError ''Error enhancing slide:'' st1), None)
            | Some currentSlide \<Rightarrow> (st1, Some currentSlide)))"

text \<open>
  \<open>currentSlide\<close> is the reference the first part read from the closure's array; \<open>None\<close>
  as response is a rejected call or a response without text.
\<close>

definition handleEnhanceSlide_resolve :: "nat \<Rightarrow> int \<Rightarrow> string option \<Rightarrow> AppState \<Rightarrow> error + AppState" where
  "handleEnhanceSlide_resolve currentSlide index resp st =
     (case resp of
        None \<Rightarrow> Inr (setActionLoading ''enhance'' index False (logError ''Error enhancing slide:'' st))
      | Some responseText \<Rightarrow>
          let newTitle = parseTitle responseText (title (heap st ! currentSlide));
              newContent = parseBullets responseText
          in if length newContent > 0
             then (case elemAt (slides st) index of
                     None \<Rightarrow> Inl TypeError
                   | Some r \<Rightarrow>
                       Inr (setActionLoading ''enhance'' index False
                             (assign r (\<lambda>s. s\<lparr>title := newTitle, content := newContent\<rparr>) st)))
             else Inr (setActionLoading ''enhance'' index False
                        (logWarn ''Failed to parse enhanced content:'' st)))"

text \<open>The whole handler when nothing else happens between the click and the response.\<close>

definition handleEnhanceSlide :: "AppState \<Rightarrow> int \<Rightarrow> string option \<Rightarrow> error + AppState" where
  "handleEnhanceSlide st index resp =
     (case handleEnhanceSlide_start (slides st) index st of
        (st1, None) \<Rightarrow> Inr st1
      | (st1, Some currentSlide) \<Rightarrow> handleEnhanceSlide_resolve currentSlide index resp st1)"

text \<open>\<^verbatim>\<open>handleGenerateSpeakerNotes\<close> (lines 543-564) stores the text through \<^verbatim>\<open>handleUpdateSlide\<close>.\<close>

definition handleGenerateSpeakerNotes_start :: "nat list \<Rightarrow> int \<Rightarrow> AppState \<Rightarrow> AppState \<times> bool" where
  "handleGenerateSpeakerNotes_start cap index st =
     (if isReadOnlyView st then (st, False)
      else
        let st1 = setActionLoading ''notes'' index True st
        in (case elemAt cap index of
              None \<Rightarrow> (setActionLoading ''notes'' index False
                         (logError ''Error generating speaker notes:'' st1), False)
            | Some r \<Rightarrow> (st1, True)))"

definition handleGenerateSpeakerNotes_resolve :: "nat list \<Rightarrow> int \<Rightarrow> string option \<Rightarrow> AppState \<Rightarrow> error + AppState" where
  "handleGenerateSpeakerNotes_resolve cap index resp st =
     (case resp of
        None \<Rightarrow> Inr (setActionLoading ''notes'' index False
                      (logError ''Error generating speaker notes:'' st))
      | Some text \<Rightarrow>
          (case handleUpdateSlideFrom cap st index (SetSpeakerNotes (Some text)) of
             Inl e \<Rightarrow> Inl e
           | Inr st1 \<Rightarrow> Inr (setActionLoading ''notes'' index False st1)))"




section \<open>Generation pipeline (src/index.tsx, lines 272-393)\<close>

text \<open>The placeholder slide the pipeline creates for an outline point (lines 314-321).\<close>

definition placeholderSlide :: "string \<Rightarrow> Slide" where
  "placeholderSlide t =
     \<lparr>title = t, content = [], imagePrompt = [], imageUrl = Some ''pending'',
      speakerNotes = Some [], layout = TextLeft, chartData = None\<rparr>"

definition setProgress :: "rat \<Rightarrow> AppState \<Rightarrow> AppState" where
  "setProgress v st = st\<lparr>progress := v, progressLog := progressLog st @ [v]\<rparr>"




definition stepPercent :: "nat \<Rightarrow> nat \<Rightarrow> rat" where
  "stepPercent currentStep totalSteps = (of_nat currentStep / of_nat totalSteps) * 100"



definition pipelineFailed :: "AppState \<Rightarrow> AppState" where
  "pipelineFailed st =
     (logError ''Error generating presentation:'' st)
       \<lparr>progressText := ''An error occurred. Please try again.'', appStep := StepOutline\<rparr>"


section \<open>Platform functions: base64 and JSON text\<close>

text \<open>
  \<^verbatim>\<open>btoa\<close> and \<^verbatim>\<open>atob\<close> (forgiving base64), on strings of code units below 256, where
  \<^verbatim>\<open>btoa\<close> does not throw.
\<close>

definition b64chars :: string where
  "b64chars = ''ABCDEFGHIJKLMNOPQRSTUVWXYZabcdefghijklmnopqrstuvwxyz0123456789+/''"

fun findIndex :: "'a \<Rightarrow> 'a list \<Rightarrow> nat option" where
  "findIndex x [] = None"
| "findIndex x (y # ys) = (if x = y then Some 0 else map_option Suc (findIndex x ys))"

definition b64val :: "char \<Rightarrow> nat option" where
  "b64val c = findIndex c b64chars"

definition b64char :: "nat \<Rightarrow> char" where
  "b64char n = b64chars ! n"

text \<open>The six-bit groups of a byte sequence, before padding.\<close>

fun sextetsOf :: "nat list \<Rightarrow> nat list" where
  "sextetsOf (a # b # c # rest) =
     (let n = a * 65536 + b * 256 + c
      in [n div 262144, n div 4096 mod 64, n div 64 mod 64, n mod 64] @ sextetsOf rest)"
| "sextetsOf [a, b] = (let n = (a * 256 + b) * 4 in [n div 4096, n div 64 mod 64, n mod 64])"
| "sextetsOf [a] = (let n = a * 16 in [n div 64, n mod 64])"
| "sextetsOf [] = []"

definition btoa :: "string \<Rightarrow> string" where
  "btoa s =
     map b64char (sextetsOf (map of_char s))
     @ replicate ((3 - length s mod 3) mod 3) (CHR ''='')"

definition isAsciiWhitespace :: "char \<Rightarrow> bool" where
  "isAsciiWhitespace c = (c \<in> set [CHR 0x09, CHR 0x0A, CHR 0x0C, CHR 0x0D, CHR 0x20])"

definition stripPadding :: "string \<Rightarrow> string" where
  "stripPadding s =
     (if length s mod 4 = 0 \<and> s \<noteq> [] \<and> last s = CHR ''=''
      then (if butlast s \<noteq> [] \<and> last (butlast s) = CHR ''='' then butlast (butlast s)
            else butlast s)
      else s)"

fun sextets :: "string \<Rightarrow> nat list option" where
  "sextets [] = Some []"
| "sextets (c # cs) =
     (case b64val c of None \<Rightarrow> None | Some v \<Rightarrow> map_option ((#) v) (sextets cs))"

fun decodeSextets :: "nat list \<Rightarrow> nat list" where
  "decodeSextets (a # b # c # d # rest) =
     (let n = a * 262144 + b * 4096 + c * 64 + d
      in [n div 65536, n div 256 mod 256, n mod 256] @ decodeSextets rest)"
| "decodeSextets [a, b, c] = (let n = (a * 4096 + b * 64 + c) div 4 in [n div 256, n mod 256])"
| "decodeSextets [a, b] = [(a * 64 + b) div 16]"
| "decodeSextets [a] = []"
| "decodeSextets [] = []"

text \<open>\<open>None\<close>: \<^verbatim>\<open>atob\<close> throws.\<close>

definition atob :: "string \<Rightarrow> string option" where
  "atob s =
     (let d = stripPadding (filter (\<lambda>c. \<not> isAsciiWhitespace c) s)
      in if length d mod 4 = 1 then None
         else map_option (\<lambda>vs. map char_of (decodeSextets vs)) (sextets d))"

text \<open>
  JSON values. A number is an integer here; an object is the list of its members in
  order, and reading a property takes the last member of that name.
\<close>

datatype json =
    JNull
  | JBool bool
  | JNum int
  | JStr string
  | JArr "json list"
  | JObj "(string \<times> json) list"

text \<open>\<^verbatim>\<open>JSON.stringify\<close>, without indentation.\<close>

definition hexDigit :: "nat \<Rightarrow> char" where
  "hexDigit n = ''0123456789abcdef'' ! n"

definition escapeChar :: "char \<Rightarrow> string" where
  "escapeChar c =
     (if c = CHR 0x22 then [CHR 0x5C, CHR 0x22]
      else if c = CHR 0x5C then [CHR 0x5C, CHR 0x5C]
      else if c = CHR 0x08 then [CHR 0x5C, CHR ''b'']
      else if c = CHR 0x0C then [CHR 0x5C, CHR ''f'']
      else if c = CHR 0x0A then [CHR 0x5C, CHR ''n'']
      else if c = CHR 0x0D then [CHR 0x5C, CHR ''r'']
      else if c = CHR 0x09 then [CHR 0x5C, CHR ''t'']
      else if (of_char c :: nat) < 32
        then [CHR 0x5C, CHR ''u'', CHR ''0'', CHR ''0'',
              hexDigit (of_char c div 16), hexDigit (of_char c mod 16)]
      else [c])"

definition quote :: "string \<Rightarrow> string" where
  "quote s = CHR 0x22 # concat (map escapeChar s) @ [CHR 0x22]"

fun showNat :: "nat \<Rightarrow> string" where
  "showNat n = (if n < 10 then [char_of (48 + n)] else showNat (n div 10) @ [char_of (48 + n mod 10)])"

definition showInt :: "int \<Rightarrow> string" where
  "showInt i = (if i < 0 then CHR ''-'' # showNat (nat (- i)) else showNat (nat i))"

fun commaSep :: "string list \<Rightarrow> string" where
  "commaSep [] = []"
| "commaSep [x] = x"
| "commaSep (x # y # ys) = x @ CHR '','' # commaSep (y # ys)"

fun stringify :: "json \<Rightarrow> string" where
  "stringify JNull = ''null''"
| "stringify (JBool b) = (if b then ''true'' else ''false'')"
| "stringify (JNum n) = showInt n"
| "stringify (JStr s) = quote s"
| "stringify (JArr xs) = CHR ''['' # commaSep (map stringify xs) @ '']''"
| "stringify (JObj kvs) =
     CHR ''{'' # commaSep (map (\<lambda>kv. quote (fst kv) @ CHR '':'' # stringify (snd kv)) kvs) @ ''}''"

text \<open>
  \<^verbatim>\<open>JSON.parse\<close>. \<open>SyntaxError\<close> is the exception; \<open>Unsupported\<close> marks a text of
  which the model does not say what \<^verbatim>\<open>JSON.parse\<close> makes: a number with a fraction or an
  exponent, an escape for a code unit above 255.
\<close>

datatype 'a parsed = SyntaxError | Unsupported | Ok 'a

definition isJsonWs :: "char \<Rightarrow> bool" where
  "isJsonWs c = (c \<in> set [CHR 0x20, CHR 0x09, CHR 0x0A, CHR 0x0D])"

definition skipWs :: "string \<Rightarrow> string" where
  "skipWs s = dropWhile isJsonWs s"

definition isDigit :: "char \<Rightarrow> bool" where
  "isDigit c = (48 \<le> (of_char c :: nat) \<and> (of_char c :: nat) \<le> 57)"

definition hexVal :: "char \<Rightarrow> nat option" where
  "hexVal c =
     (let n = (of_char c :: nat)
      in if 48 \<le> n \<and> n \<le> 57 then Some (n - 48)
         else if 97 \<le> n \<and> n \<le> 102 then Some (n - 87)
         else if 65 \<le> n \<and> n \<le> 70 then Some (n - 55)
         else None)"

definition unescape :: "char \<Rightarrow> char option" where
  "unescape e =
     (if e = CHR 0x22 then Some (CHR 0x22)
      else if e = CHR 0x5C then Some (CHR 0x5C)
      else if e = CHR ''/'' then Some (CHR ''/'')
      else if e = CHR ''b'' then Some (CHR 0x08)
      else if e = CHR ''f'' then Some (CHR 0x0C)
      else if e = CHR ''n'' then Some (CHR 0x0A)
      else if e = CHR ''r'' then Some (CHR 0x0D)
      else if e = CHR ''t'' then Some (CHR 0x09)
      else None)"

definition consChar :: "char \<Rightarrow> (string \<times> string) parsed \<Rightarrow> (string \<times> string) parsed" where
  "consChar c p = (case p of Ok (s, r) \<Rightarrow> Ok (c # s, r) | SyntaxError \<Rightarrow> SyntaxError
                   | Unsupported \<Rightarrow> Unsupported)"

text \<open>The characters of a string literal after its opening quote, and what follows the literal.\<close>

fun parseChars :: "string \<Rightarrow> (string \<times> string) parsed" where
  "parseChars [] = SyntaxError"
| "parseChars (c # cs) =
     (if c = CHR 0x22 then Ok ([], cs)
      else if c = CHR 0x5C then
        (case cs of
           [] \<Rightarrow> SyntaxError
         | e # cs1 \<Rightarrow>
             if e = CHR ''u'' then
               (case cs1 of
                  a # b # x # y # cs2 \<Rightarrow>
                    (case (hexVal a, hexVal b, hexVal x, hexVal y) of
                       (Some h1, Some h2, Some h3, Some h4) \<Rightarrow>
                         if ((h1 * 16 + h2) * 16 + h3) * 16 + h4 < 256
                         then consChar (char_of (((h1 * 16 + h2) * 16 + h3) * 16 + h4)) (parseChars cs2)
                         else Unsupported
                     | _ \<Rightarrow> SyntaxError)
                | _ \<Rightarrow> SyntaxError)
             else (case unescape e of
                     None \<Rightarrow> SyntaxError
                   | Some ch \<Rightarrow> consChar ch (parseChars cs1)))
      else if (of_char c :: nat) < 32 then SyntaxError
      else consChar c (parseChars cs))"

definition digitsVal :: "string \<Rightarrow> nat" where
  "digitsVal ds = foldl (\<lambda>acc c. acc * 10 + (of_char c - 48)) 0 ds"

definition parseNumber :: "string \<Rightarrow> (json \<times> string) parsed" where
  "parseNumber s =
     (let neg = (s \<noteq> [] \<and> hd s = CHR ''-'');
          s1 = (if neg then tl s else s);
          ds = takeWhile isDigit s1;
          r = dropWhile isDigit s1
      in if ds = [] then SyntaxError
         else if length ds > 1 \<and> hd ds = CHR ''0'' then SyntaxError
         else if r \<noteq> [] \<and> (hd r = CHR ''.'' \<or> hd r = CHR ''e'' \<or> hd r = CHR ''E'') then Unsupported
         else Ok (JNum (if neg then - int (digitsVal ds) else int (digitsVal ds)), r))"

definition mapParsed :: "('a \<Rightarrow> 'b) \<Rightarrow> ('a \<times> string) parsed \<Rightarrow> ('b \<times> string) parsed" where
  "mapParsed g p = (case p of Ok (v, r) \<Rightarrow> Ok (g v, r) | SyntaxError \<Rightarrow> SyntaxError
                    | Unsupported \<Rightarrow> Unsupported)"

text \<open>
  The first argument bounds the number of nested calls; with none left the result is
  \<open>Unsupported\<close>.
\<close>

fun parseValue :: "nat \<Rightarrow> string \<Rightarrow> (json \<times> string) parsed"
  and parseElems :: "nat \<Rightarrow> string \<Rightarrow> (json list \<times> string) parsed"
  and parseMembers :: "nat \<Rightarrow> string \<Rightarrow> ((string \<times> json) list \<times> string) parsed" where
  "parseValue 0 s = Unsupported"
| "parseValue (Suc f) s =
     (case skipWs s of
        [] \<Rightarrow> SyntaxError
      | c # r \<Rightarrow>
          if c = CHR ''n'' then (if take 3 r = ''ull'' then Ok (JNull, drop 3 r) else SyntaxError)
          else if c = CHR ''t'' then (if take 3 r = ''rue'' then Ok (JBool True, drop 3 r) else SyntaxError)
          else if c = CHR ''f'' then (if take 4 r = ''alse'' then Ok (JBool False, drop 4 r) else SyntaxError)
          else if c = CHR 0x22 then mapParsed JStr (parseChars r)
          else if c = CHR ''['' then
            (case skipWs r of
               [] \<Rightarrow> SyntaxError
             | d # r' \<Rightarrow> if d = CHR '']'' then Ok (JArr [], r') else mapParsed JArr (parseElems f (d # r')))
          else if c = CHR ''{'' then
            (case skipWs r of
               [] \<Rightarrow> SyntaxError
             | d # r' \<Rightarrow> if d = CHR ''}'' then Ok (JObj [], r') else mapParsed JObj (parseMembers f (d # r')))
          else if c = CHR ''-'' \<or> isDigit c then parseNumber (c # r)
          else SyntaxError)"
| "parseElems 0 s = Unsupported"
| "parseElems (Suc f) s =
     (case parseValue f s of
        SyntaxError \<Rightarrow> SyntaxError
      | Unsupported \<Rightarrow> Unsupported
      | Ok (v, r) \<Rightarrow>
          (case skipWs r of
             [] \<Rightarrow> SyntaxError
           | d # r' \<Rightarrow>
               if d = CHR '','' then mapParsed ((#) v) (parseElems f r')
               else if d = CHR '']'' then Ok ([v], r')
               else SyntaxError))"
| "parseMembers 0 s = Unsupported"
| "parseMembers (Suc f) s =
     (case skipWs s of
        [] \<Rightarrow> SyntaxError
      | q # r \<Rightarrow>
          if q \<noteq> CHR 0x22 then SyntaxError
          else
            (case parseChars r of
               SyntaxError \<Rightarrow> SyntaxError
             | Unsupported \<Rightarrow> Unsupported
             | Ok (k, r1) \<Rightarrow>
                 (case skipWs r1 of
                    [] \<Rightarrow> SyntaxError
                  | col # r2 \<Rightarrow>
                      if col \<noteq> CHR '':'' then SyntaxError
                      else
                        (case parseValue f r2 of
                           SyntaxError \<Rightarrow> SyntaxError
                         | Unsupported \<Rightarrow> Unsupported
                         | Ok (v, r3) \<Rightarrow>
                             (case skipWs r3 of
                                [] \<Rightarrow> SyntaxError
                              | d # r4 \<Rightarrow>
                                  if d = CHR '','' then mapParsed ((#) (k, v)) (parseMembers f r4)
                                  else if d = CHR ''}'' then Ok ([(k, v)], r4)
                                  else SyntaxError)))))"

definition JSON_parse :: "string \<Rightarrow> json parsed" where
  "JSON_parse s =
     (case parseValue (3 * length s + 3) s of
        SyntaxError \<Rightarrow> SyntaxError
      | Unsupported \<Rightarrow> Unsupported
      | Ok (v, r) \<Rightarrow> if skipWs r = [] then Ok v else SyntaxError)"

text \<open>Reading a property of a value that is not \<^verbatim>\<open>null\<close>; \<open>None\<close> is \<^verbatim>\<open>undefined\<close>.\<close>

fun getProp :: "json \<Rightarrow> string \<Rightarrow> json option" where
  "getProp (JObj kvs) k = map_of (rev kvs) k"
| "getProp _ k = None"

fun truthy :: "json option \<Rightarrow> bool" where
  "truthy None = False"
| "truthy (Some JNull) = False"
| "truthy (Some (JBool b)) = b"
| "truthy (Some (JNum n)) = (n \<noteq> 0)"
| "truthy (Some (JStr s)) = (s \<noteq> [])"
| "truthy (Some (JArr xs)) = True"
| "truthy (Some (JObj kvs)) = True"

section \<open>Share links (src/index.tsx, lines 174-199 and 253-270)\<close>

text \<open>
  The slides and themes as the JavaScript objects \<^verbatim>\<open>JSON.stringify\<close> sees: a property
  that is \<^verbatim>\<open>undefined\<close> is left out.
\<close>

fun layoutName :: "SlideLayout \<Rightarrow> string" where
  "layoutName TextLeft = ''text-left''"
| "layoutName TextRight = ''text-right''"
| "layoutName ImageFull = ''image-full''"

fun chartTypeName :: "ChartType \<Rightarrow> string" where
  "chartTypeName Bar = ''bar''"
| "chartTypeName Line = ''line''"
| "chartTypeName Pie = ''pie''"

definition optMember :: "string \<Rightarrow> json option \<Rightarrow> (string \<times> json) list" where
  "optMember k v = (case v of None \<Rightarrow> [] | Some j \<Rightarrow> [(k, j)])"

definition datasetToJson :: "Dataset \<Rightarrow> json" where
  "datasetToJson d = JObj [(''label'', JStr (label d)), (''data'', JArr (map JNum (data d)))]"

definition chartToJson :: "ChartData \<Rightarrow> json" where
  "chartToJson c =
     JObj [(''type'', JStr (chartTypeName (type c))),
           (''labels'', JArr (map JStr (labels c))),
           (''datasets'', JArr (map datasetToJson (datasets c)))]"

definition slideToJson :: "Slide \<Rightarrow> json" where
  "slideToJson s =
     JObj ([(''title'', JStr (title s)),
            (''content'', JArr (map JStr (content s))),
            (''imagePrompt'', JStr (imagePrompt s))]
           @ optMember ''imageUrl'' (map_option JStr (imageUrl s))
           @ optMember ''speakerNotes'' (map_option JStr (speakerNotes s))
           @ [(''layout'', JStr (layoutName (layout s)))]
           @ optMember ''chartData'' (map_option chartToJson (chartData s)))"

definition customThemeToJson :: "CustomTheme \<Rightarrow> json" where
  "customThemeToJson t =
     JObj [(''id'', JStr (id_t t)),
           (''name'', JStr (name t)),
           (''colors'',
            JObj [(''--bg-primary'', JStr (bg_primary (colors t))),
                  (''--bg-secondary'', JStr (bg_secondary (colors t))),
                  (''--text-primary'', JStr (text_primary (colors t))),
                  (''--text-secondary'', JStr (text_secondary (colors t))),
                  (''--accent-primary'', JStr (accent_primary (colors t)))])]"

text \<open>\<^verbatim>\<open>{ slides: slides, theme: theme, customTheme: customThemeForShare || null }\<close>\<close>

definition payloadToJson :: "Slide list \<Rightarrow> string \<Rightarrow> CustomTheme option \<Rightarrow> json" where
  "payloadToJson ss th customThemeForShare =
     JObj [(''slides'', JArr (map slideToJson ss)),
           (''theme'', JStr th),
           (''customTheme'',
            (case customThemeForShare of None \<Rightarrow> JNull | Some t \<Rightarrow> customThemeToJson t))]"

text \<open>
  \<open>location\<close> is \<^verbatim>\<open>window.location.origin\<close> followed by \<^verbatim>\<open>window.location.pathname\<close>.
  On the model's strings neither \<^verbatim>\<open>JSON.stringify\<close> nor \<^verbatim>\<open>btoa\<close> throws, so the
  \<^verbatim>\<open>catch\<close> of the handler is not reached.
\<close>

definition handlePublish :: "string \<Rightarrow> AppState \<Rightarrow> AppState" where
  "handlePublish location st =
     (let customThemeForShare = find (\<lambda>t. id_t t = theme st) (customThemes st);
          payload = payloadToJson (deck st) (theme st) customThemeForShare;
          data = stringify payload;
          encodedData = btoa data
      in st\<lparr>shareUrl := location @ ''#share='' @ encodedData, isShareModalOpen := True\<rparr>)"

text \<open>
  The state holds typed slides and themes, so what the decoder takes from the payload is
  read into those types; \<open>None\<close> is a value that is not of the declared type.
\<close>

fun asString :: "json option \<Rightarrow> string option" where
  "asString (Some (JStr s)) = Some s"
| "asString _ = None"

fun asInt :: "json \<Rightarrow> int option" where
  "asInt (JNum n) = Some n"
| "asInt _ = None"

fun asOptString :: "json option \<Rightarrow> string option option" where
  "asOptString None = Some None"
| "asOptString (Some (JStr s)) = Some (Some s)"
| "asOptString _ = None"

fun asList :: "(json \<Rightarrow> 'a option) \<Rightarrow> json option \<Rightarrow> 'a list option" where
  "asList rd (Some (JArr xs)) = those (map rd xs)"
| "asList rd _ = None"

definition readLayout :: "json option \<Rightarrow> SlideLayout option" where
  "readLayout j =
     (case asString j of
        None \<Rightarrow> None
      | Some l \<Rightarrow> if l = ''text-left'' then Some TextLeft
                  else if l = ''text-right'' then Some TextRight
                  else if l = ''image-full'' then Some ImageFull
                  else None)"

definition readChartType :: "json option \<Rightarrow> ChartType option" where
  "readChartType j =
     (case asString j of
        None \<Rightarrow> None
      | Some l \<Rightarrow> if l = ''bar'' then Some Bar
                  else if l = ''line'' then Some Line
                  else if l = ''pie'' then Some Pie
                  else None)"

definition readDataset :: "json \<Rightarrow> Dataset option" where
  "readDataset j =
     (case (asString (getProp j ''label''), asList asInt (getProp j ''data'')) of
        (Some l, Some d) \<Rightarrow> Some \<lparr>label = l, data = d\<rparr>
      | _ \<Rightarrow> None)"

definition readChart :: "json \<Rightarrow> ChartData option" where
  "readChart j =
     (case (readChartType (getProp j ''type''),
            asList (\<lambda>x. asString (Some x)) (getProp j ''labels''),
            asList readDataset (getProp j ''datasets'')) of
        (Some t, Some ls, Some ds) \<Rightarrow> Some \<lparr>type = t, labels = ls, datasets = ds\<rparr>
      | _ \<Rightarrow> None)"

definition readOptChart :: "json option \<Rightarrow> ChartData option option" where
  "readOptChart j = (case j of None \<Rightarrow> Some None | Some c \<Rightarrow> map_option Some (readChart c))"

definition readSlide :: "json \<Rightarrow> Slide option" where
  "readSlide j =
     (case (asString (getProp j ''title''),
            asList (\<lambda>x. asString (Some x)) (getProp j ''content''),
            asString (getProp j ''imagePrompt''),
            asOptString (getProp j ''imageUrl''),
            asOptString (getProp j ''speakerNotes''),
            readLayout (getProp j ''layout''),
            readOptChart (getProp j ''chartData'')) of
        (Some t, Some c, Some p, Some u, Some n, Some l, Some ch) \<Rightarrow>
          Some \<lparr>title = t, content = c, imagePrompt = p, imageUrl = u, speakerNotes = n,
                layout = l, chartData = ch\<rparr>
      | _ \<Rightarrow> None)"

definition readColors :: "json option \<Rightarrow> ThemeColors option" where
  "readColors j =
     (case j of
        None \<Rightarrow> None
      | Some c \<Rightarrow>
          (case (asString (getProp c ''--bg-primary''), asString (getProp c ''--bg-secondary''),
                 asString (getProp c ''--text-primary''), asString (getProp c ''--text-secondary''),
                 asString (getProp c ''--accent-primary'')) of
             (Some a, Some b, Some x, Some y, Some z) \<Rightarrow>
               Some \<lparr>bg_primary = a, bg_secondary = b, text_primary = x, text_secondary = y,
                     accent_primary = z\<rparr>
           | _ \<Rightarrow> None))"

definition readCustomTheme :: "json \<Rightarrow> CustomTheme option" where
  "readCustomTheme j =
     (case (asString (getProp j ''id''), asString (getProp j ''name''),
            readColors (getProp j ''colors'')) of
        (Some i, Some n, Some c) \<Rightarrow> Some \<lparr>id_t = i, name = n, colors = c\<rparr>
      | _ \<Rightarrow> None)"

text \<open>
  The merge of the carried custom theme:
  \<^verbatim>\<open>prev.find(t => t.id === payload.customTheme.id) ? prev : [...prev, payload.customTheme]\<close>.
\<close>

definition mergeCustomTheme :: "CustomTheme \<Rightarrow> CustomTheme list \<Rightarrow> CustomTheme list" where
  "mergeCustomTheme ct prev =
     (case find (\<lambda>t. id_t t = id_t ct) prev of Some existing \<Rightarrow> prev | None \<Rightarrow> prev @ [ct])"

text \<open>The \<^verbatim>\<open>catch\<close> of the effect: log, and clear the fragment.\<close>

definition loadFailed :: "AppState \<Rightarrow> AppState" where
  "loadFailed st = (logError ''Failed to load shared presentation:'' st)\<lparr>locationHash := []\<rparr>"

text \<open>
  The effect that runs once on load. Reading a property of \<^verbatim>\<open>null\<close> throws inside the
  \<^verbatim>\<open>try\<close>; of any other value that lacks it, it gives \<^verbatim>\<open>undefined\<close>.
\<close>

definition loadShared :: "AppState \<Rightarrow> error + AppState" where
  "loadShared st =
     (let hash = locationHash st
      in if startsWith hash ''#share='' then
           (case atob (drop 7 hash) of
              None \<Rightarrow> Inr (loadFailed st)
            | Some decodedData \<Rightarrow>
                (case JSON_parse decodedData of
                   SyntaxError \<Rightarrow> Inr (loadFailed st)
                 | Unsupported \<Rightarrow> Inl OutsideModel
                 | Ok payload \<Rightarrow>
                     if payload = JNull then Inr (loadFailed st)
                     else if truthy (getProp payload ''slides'') \<and> truthy (getProp payload ''theme'')
                     then
                       (case (asList readSlide (getProp payload ''slides''),
                              asString (getProp payload ''theme''),
                              if truthy (getProp payload ''customTheme'')
                              then map_option Some (readCustomTheme (the (getProp payload ''customTheme'')))
                              else Some None) of
                          (Some newSlides, Some newTheme, Some carried) \<Rightarrow>
                            Inr (st\<lparr>heap := heap st @ newSlides,
                                    slides := [length (heap st) ..< length (heap st) + length newSlides],
                                    theme := newTheme,
                                    customThemes := (case carried of
                                                       None \<Rightarrow> customThemes st
                                                     | Some ct \<Rightarrow> mergeCustomTheme ct (customThemes st)),
                                    isReadOnlyView := True,
                                    appStep := StepPresentation\<rparr>)
                        | _ \<Rightarrow> Inl OutsideModel)
                     else Inr st))
         else Inr st)"

section \<open>Specification-side notions\<close>

text \<open>Removing the element at a position, and inserting one before a position.\<close>

definition removeAt :: "nat \<Rightarrow> 'a list \<Rightarrow> 'a list" where
  "removeAt i xs = take i xs @ drop (Suc i) xs"

definition insertAt :: "nat \<Rightarrow> 'a \<Rightarrow> 'a list \<Rightarrow> 'a list" where
  "insertAt i x xs = take i xs @ x # drop i xs"

text \<open>
  The cursor rule in the words of the specification: the cursor follows the moved slide,
  shifts against the move when it lies strictly between source and destination, and is
  unchanged otherwise.
\<close>

definition cursorRuleSpec :: "int \<Rightarrow> int \<Rightarrow> int \<Rightarrow> int" where
  "cursorRuleSpec src dst cur =
     (if cur = src then dst
      else if src < cur \<and> cur < dst then cur - 1
      else if dst < cur \<and> cur < src then cur + 1
      else cur)"

text \<open>
  A slide holds an actual image when \<^verbatim>\<open>imageUrl\<close> is none of the states the editor
  tells apart before it renders the image (lines 1285-1291): \<^verbatim>\<open>loading\<close>, \<^verbatim>\<open>pending\<close>,
  \<^verbatim>\<open>error\<close> and the falsy values.
\<close>

definition hasImage :: "Slide \<Rightarrow> bool" where
  "hasImage s =
     (case imageUrl s of
        None \<Rightarrow> False
      | Some u \<Rightarrow> u \<noteq> ''loading'' \<and> u \<noteq> ''pending'' \<and> u \<noteq> ''error'' \<and> u \<noteq> [])"

definition exclusive :: "Slide \<Rightarrow> bool" where
  "exclusive s = (\<not> (chartData s \<noteq> None \<and> hasImage s))"

text \<open>Every slide object of the store, in a deck or held by a closure, is exclusive.\<close>

definition allExclusive :: "AppState \<Rightarrow> bool" where
  "allExclusive st = list_all exclusive (heap st)"





text \<open>The state the handler leaves when the loop has finished.\<close>

definition pipelineDone :: "AppState \<Rightarrow> AppState" where
  "pipelineDone st =
     (setProgress 100 (st\<lparr>progressText := ''Finalizing...''\<rparr>))\<lparr>appStep := StepPresentation\<rparr>"

text \<open>The reports of the steps \<open>a + 1, \<dots>, a + m\<close> out of \<open>totalSteps\<close>.\<close>

definition stepReports :: "nat \<Rightarrow> nat \<Rightarrow> nat \<Rightarrow> rat list" where
  "stepReports totalSteps a m = map (\<lambda>n. stepPercent n totalSteps) [a + 1 ..< a + 1 + m]"


text \<open>
  Calls that suffice for \<open>parseValue\<close> to read back the text of a value, and the
  contexts a value's text stands in: the end, or a separator or closing bracket.
\<close>

fun fuelFor :: "json \<Rightarrow> nat" where
  "fuelFor (JArr xs) = 2 + sum_list (map fuelFor xs) + length xs"
| "fuelFor (JObj kvs) = 2 + sum_list (map (\<lambda>kv. fuelFor (snd kv)) kvs) + length kvs"
| "fuelFor _ = 1"

definition okRest :: "string \<Rightarrow> bool" where
  "okRest rest = (rest = [] \<or> hd rest = CHR '','' \<or> hd rest = CHR '']'' \<or> hd rest = CHR ''}'')"

text \<open>The fragment of an address: what starts at its first \<^verbatim>\<open>#\<close>.\<close>

definition fragmentOf :: "string \<Rightarrow> string" where
  "fragmentOf url = dropWhile (\<lambda>c. c \<noteq> CHR ''#'') url"

section \<open>Concrete states\<close>

text \<open>The state of a fresh session: the initial values of the \<^verbatim>\<open>useState\<close> hooks (lines 144-169).\<close>

definition initialState :: AppState where
  "initialState =
     \<lparr>heap = [], slides = [], currentSlideIndex = 0, theme = ''dark'', customThemes = [],
      isReadOnlyView = False, appStep = StepPrompt, topic = [], outlines = [],
      selectedOutlineIndex = None, progress = 0, progressText = [], progressLog = [],
      slideActionLoading = Map.empty, dragItem = None, dragOverItem = None,
      locationHash = [], shareUrl = [], isShareModalOpen = False, console = []\<rparr>"

text \<open>A deck of three placeholder slides, open for editing.\<close>

definition deck3 :: AppState where
  "deck3 = initialState
     \<lparr>heap := [placeholderSlide ''A'', placeholderSlide ''B'', placeholderSlide ''C''],
      slides := [0, 1, 2], appStep := StepPresentation\<rparr>"

text \<open>A chart, and the three-slide deck with an image on its first slide.\<close>

definition sampleChart :: ChartData where
  "sampleChart = \<lparr>type = Bar, labels = [''Q1'', ''Q2''], datasets = [\<lparr>label = ''Sales'', data = [3, 5]\<rparr>]\<rparr>"

definition deckImg :: AppState where
  "deckImg = deck3
     \<lparr>heap := [(placeholderSlide ''A'')\<lparr>imageUrl := Some (dataUrl ''QUJD'')\<rparr>,
               placeholderSlide ''B'', placeholderSlide ''C'']\<rparr>"

text \<open>A response to the enhance request with a title and one bullet, and one with no bullet.\<close>

definition enhanceResponse :: string where
  "enhanceResponse = ''Title: New'' @ [CHR 0x0A] @ ''- b''"

definition enhanceNoBullets :: string where
  "enhanceNoBullets = ''Title: New'' @ [CHR 0x0A] @ ''b''"






text \<open>
  A deck of one slide with a chart, under a custom theme; the same deck with the empty
  string as theme id; and the address of the application.
\<close>

definition sampleTheme :: CustomTheme where
  "sampleTheme =
     \<lparr>id_t = ''custom-1'', name = ''Mine'',
      colors = \<lparr>bg_primary = ''#000'', bg_secondary = ''#111'', text_primary = ''#fff'',
                text_secondary = ''#eee'', accent_primary = ''#f00''\<rparr>\<rparr>"

definition deck1 :: AppState where
  "deck1 = initialState
     \<lparr>heap := [(placeholderSlide ''A'')\<lparr>imageUrl := None, chartData := Some sampleChart\<rparr>],
      slides := [0], appStep := StepPresentation, theme := ''custom-1'',
      customThemes := [sampleTheme]\<rparr>"

definition deckNoTheme :: AppState where
  "deckNoTheme = deck1\<lparr>theme := []\<rparr>"

definition appLocation :: string where
  "appLocation = ''https://example.org/app/''"

section \<open>Verification\<close>

subsection \<open>List moves\<close>

lemma filter_enumerate_ne:
  "j < length xs \<Longrightarrow>
   map snd (filter (\<lambda>(i, _). int i \<noteq> int (n + j)) (enumerate n xs)) = take j xs @ drop (Suc j) xs"
proof (induction xs arbitrary: n j)
  case Nil then show ?case by simp
next
  case (Cons x xs)
  show ?case
  proof (cases j)
    case 0
    have "filter (\<lambda>(i, _). int i \<noteq> int n) (enumerate (Suc n) xs) = enumerate (Suc n) xs"
      by (rule filter_True) (auto simp: in_set_enumerate_eq)
    with 0 show ?thesis by simp
  next
    case (Suc k)
    with Cons.prems have k: "k < length xs" by simp
    from Cons.IH[OF k, of "Suc n"] Suc show ?thesis by simp
  qed
qed

lemma filterNotIndex_in:
  "0 \<le> j \<Longrightarrow> j < int (length xs) \<Longrightarrow> filterNotIndex xs j = removeAt (nat j) xs"
  using filter_enumerate_ne[of "nat j" xs 0] by (simp add: filterNotIndex_def removeAt_def)

lemma filterNotIndex_out:
  assumes "j < 0 \<or> j \<ge> int (length xs)"
  shows "filterNotIndex xs j = xs"
proof -
  have "filter (\<lambda>(i, _). int i \<noteq> j) (enumerate 0 xs) = enumerate 0 xs"
    by (rule filter_True) (use assms in \<open>auto simp: in_set_enumerate_eq\<close>)
  then show ?thesis by (simp add: filterNotIndex_def)
qed

lemma splice_remove1:
  assumes "0 \<le> s" "s < int (length xs)"
  shows "splice xs s 1 [] = ([xs ! nat s], removeAt (nat s) xs)"
proof -
  from assms have n: "nat s < length xs" by simp
  have 1: "take (Suc 0) (drop (nat s) xs) = [xs ! nat s]"
    using n by (simp add: Cons_nth_drop_Suc[symmetric])
  have 2: "nat (s + 1) = Suc (nat s)" using assms by simp
  show ?thesis using assms 1 2 by (simp add: splice_def Let_def removeAt_def)
qed

lemma splice_insert1:
  assumes "0 \<le> d" "d \<le> int (length ys)"
  shows "snd (splice ys d 0 [x]) = insertAt (nat d) x ys"
  using assms by (simp add: splice_def Let_def insertAt_def)

lemma length_removeAt: "i < length xs \<Longrightarrow> length (removeAt i xs) = length xs - 1"
  by (simp add: removeAt_def)

lemma length_insertAt: "length (insertAt i x xs) = Suc (length xs)"
  by (simp add: insertAt_def)

lemma nth_removeAt:
  "i < length xs \<Longrightarrow> k < length xs - 1 \<Longrightarrow>
   removeAt i xs ! k = (if k < i then xs ! k else xs ! Suc k)"
  by (auto simp: removeAt_def nth_append min_def)

lemma nth_insertAt:
  "i \<le> length xs \<Longrightarrow> k \<le> length xs \<Longrightarrow>
   insertAt i x xs ! k = (if k < i then xs ! k else if k = i then x else xs ! (k - 1))"
proof -
  assume i: "i \<le> length xs" and k: "k \<le> length xs"
  consider "k < i" | "k = i" | "i < k" by linarith
  then show ?thesis
  proof cases
    case 1
    then show ?thesis using i by (simp add: insertAt_def nth_append)
  next
    case 2
    then show ?thesis using i by (simp add: insertAt_def nth_append)
  next
    case 3
    then obtain m where m: "k - i = Suc m" by (metis Suc_diff_Suc)
    with 3 have km: "i + m = k - 1" by simp
    from 3 m i k show ?thesis by (simp add: insertAt_def nth_append km)
  qed
qed

lemma removeAt_insertAt: "i \<le> length xs \<Longrightarrow> removeAt i (insertAt i x xs) = xs"
  by (simp add: removeAt_def insertAt_def min_def)

lemma mset_removeAt: "i < length xs \<Longrightarrow> mset (removeAt i xs) + {#xs ! i#} = mset xs"
proof -
  assume i: "i < length xs"
  then have "xs = take i xs @ xs ! i # drop (Suc i) xs" by (rule id_take_nth_drop)
  then have "mset xs = mset (take i xs @ xs ! i # drop (Suc i) xs)" by simp
  then show ?thesis by (simp add: removeAt_def)
qed

lemma mset_insertAt: "mset (insertAt i x xs) = mset xs + {#x#}"
proof -
  have "mset (take i xs) + mset (drop i xs) = mset xs"
    by (metis append_take_drop_id mset_append)
  then show ?thesis by (simp add: insertAt_def)
qed

lemma map_removeAt: "map f (removeAt i xs) = removeAt i (map f xs)"
  by (simp add: removeAt_def take_map drop_map)

lemma map_insertAt: "map f (insertAt i x xs) = insertAt i (f x) (map f xs)"
  by (simp add: insertAt_def take_map drop_map)

text \<open>The move as one list expression.\<close>

lemma handleDragSort_valid:
  assumes "dragItem st = Some src" "dragOverItem st = Some dst" "src \<noteq> dst"
    and "0 \<le> src" "src < int (length (slides st))"
    and "0 \<le> dst" "dst < int (length (slides st))"
    and "\<not> isReadOnlyView st"
  shows "handleDragSort st =
     Inr (st\<lparr>slides := insertAt (nat dst) (slides st ! nat src) (removeAt (nat src) (slides st)),
             currentSlideIndex := newCurrentIndex src dst (currentSlideIndex st),
             dragItem := None, dragOverItem := None\<rparr>)"
proof -
  have len: "length (removeAt (nat src) (slides st)) = length (slides st) - 1"
    using assms by (simp add: length_removeAt)
  have d: "dst \<le> int (length (removeAt (nat src) (slides st)))"
    using assms len by simp
  show ?thesis
    using assms splice_remove1[of src "slides st"] splice_insert1[OF \<open>0 \<le> dst\<close> d]
    by (simp add: handleDragSort_def)
qed

lemma moved_props:
  assumes s: "s < length xs" and d: "d < length xs"
  defines "zs \<equiv> insertAt d (xs ! s) (removeAt s xs)"
  shows "length zs = length xs" "mset zs = mset xs" "zs ! d = xs ! s"
    "removeAt d zs = removeAt s xs"
proof -
  have len: "length (removeAt s xs) = length xs - 1" using s by (simp add: length_removeAt)
  then have d': "d \<le> length (removeAt s xs)" using d by simp
  show "length zs = length xs" using s len by (simp add: zs_def length_insertAt)
  show "mset zs = mset xs" using mset_removeAt[OF s] by (simp add: zs_def mset_insertAt)
  show "zs ! d = xs ! s" using d' by (simp add: zs_def nth_insertAt)
  show "removeAt d zs = removeAt s xs" using d' by (simp add: zs_def removeAt_insertAt)
qed

lemma moved_nth:
  assumes s: "s < length xs" and d: "d < length xs" and c: "c < length xs" and ne: "s \<noteq> d"
  defines "zs \<equiv> insertAt d (xs ! s) (removeAt s xs)"
  defines "c' \<equiv> (if c = s then d else if s < c \<and> c \<le> d then c - 1
                    else if d \<le> c \<and> c < s then c + 1 else c)"
  shows "c' < length xs \<and> zs ! c' = xs ! c"
proof -
  have len: "length (removeAt s xs) = length xs - 1" using s by (simp add: length_removeAt)
  then have d': "d \<le> length (removeAt s xs)" using d by simp
  have c'len: "c' < length xs" using s d c by (auto simp: c'_def)
  then have c'le: "c' \<le> length (removeAt s xs)" using len by simp
  have "zs ! c' = xs ! c"
    unfolding zs_def nth_insertAt[OF d' c'le]
    using s d c ne len by (auto simp: c'_def nth_removeAt)
  with c'len show ?thesis by simp
qed

subsection \<open>Reordering and deleting slides\<close>

lemma deck_moved:
  "deck (st\<lparr>slides := insertAt d (slides st ! s) (removeAt s (slides st)),
             currentSlideIndex := c, dragItem := a, dragOverItem := b\<rparr>)
   = insertAt d (heap st ! (slides st ! s)) (removeAt s (deck st))"
  by (simp add: deck_def deckOf_def map_insertAt map_removeAt)

text \<open>
  Claim C3. A reorder with valid, distinct source and destination on an editable deck
  succeeds, touches no slide record, and yields a permutation of the deck in which the source
  slide sits at the destination position while the other slides keep their order: the
  deck without the destination position equals the old deck without the source position
  (remove at the source, then insert at the destination of the shortened list).
\<close>

theorem reorder_correct:
  assumes "dragItem st = Some src" and "dragOverItem st = Some dst" and "src \<noteq> dst"
    and "0 \<le> src" and "src < int (length (slides st))"
    and "0 \<le> dst" and "dst < int (length (slides st))"
    and "\<not> isReadOnlyView st"
  shows "\<exists>st'. handleDragSort st = Inr st' \<and> heap st' = heap st
     \<and> length (deck st') = length (deck st)
     \<and> mset (deck st') = mset (deck st)
     \<and> deck st' ! nat dst = deck st ! nat src
     \<and> removeAt (nat dst) (deck st') = removeAt (nat src) (deck st)
     \<and> deck st' = insertAt (nat dst) (deck st ! nat src) (removeAt (nat src) (deck st))"
proof -
  let ?st' = "st\<lparr>slides := insertAt (nat dst) (slides st ! nat src) (removeAt (nat src) (slides st)),
             currentSlideIndex := newCurrentIndex src dst (currentSlideIndex st),
             dragItem := None, dragOverItem := None\<rparr>"
  have run: "handleDragSort st = Inr ?st'" using assms by (rule handleDragSort_valid)
  have s: "nat src < length (deck st)" and d: "nat dst < length (deck st)"
    using assms by (simp_all add: deck_def deckOf_def)
  have at: "heap st ! (slides st ! nat src) = deck st ! nat src"
    using s by (simp add: deck_def deckOf_def)
  have dk: "deck ?st' = insertAt (nat dst) (deck st ! nat src) (removeAt (nat src) (deck st))"
    by (simp only: deck_moved at)
  from moved_props[OF s d] dk run show ?thesis by simp
qed

theorem reorder_correct_witness:
  "handleDragSort (deck3\<lparr>dragItem := Some 0, dragOverItem := Some 2\<rparr>) \<noteq> Inl MalformedDeck
   \<and> (\<exists>st'. handleDragSort (deck3\<lparr>dragItem := Some 0, dragOverItem := Some 2\<rparr>) = Inr st'
        \<and> deck st' = [placeholderSlide ''B'', placeholderSlide ''C'', placeholderSlide ''A''])"
  using reorder_correct[of "deck3\<lparr>dragItem := Some 0, dragOverItem := Some 2\<rparr>" 0 2]
  by (auto simp: deck3_def initialState_def deck_def deckOf_def insertAt_def removeAt_def)

text \<open>
  Claim C4 as stated fails when the cursor is on the destination: moving slide 0 to
  position 2 with the cursor on 2 puts the cursor on 1, although 2 does not lie strictly
  between 0 and 2, where the stated rule leaves it unchanged.
\<close>

theorem reorder_cursor_not_strict:
  "handleDragSort (deck3\<lparr>currentSlideIndex := 2, dragItem := Some 0, dragOverItem := Some 2\<rparr>)
     = Inr (deck3\<lparr>slides := [1, 2, 0], currentSlideIndex := 1, dragItem := None, dragOverItem := None\<rparr>)
   \<and> cursorRuleSpec 0 2 2 = 2"
  by (simp add: handleDragSort_def splice_def deck3_def initialState_def newCurrentIndex_def
      cursorRuleSpec_def)

text \<open>
  Claim C4, amended. The cursor follows the moved slide when it was on the source; it
  shifts by one against the move when it lay after the source up to and including the
  destination (forward move) or from the destination, included, up to before the source
  (backward move); otherwise it is unchanged. In every case the new cursor is a valid
  index and refers to the same slide record as before.
\<close>

theorem reorder_cursor:
  assumes "dragItem st = Some src" and "dragOverItem st = Some dst" and "src \<noteq> dst"
    and "0 \<le> src" and "src < int (length (slides st))"
    and "0 \<le> dst" and "dst < int (length (slides st))"
    and "\<not> isReadOnlyView st"
    and "0 \<le> currentSlideIndex st" and "currentSlideIndex st < int (length (slides st))"
  shows "\<exists>st'. handleDragSort st = Inr st' \<and> heap st' = heap st
     \<and> currentSlideIndex st' =
         (if currentSlideIndex st = src then dst
          else if src < currentSlideIndex st \<and> currentSlideIndex st \<le> dst then currentSlideIndex st - 1
          else if dst \<le> currentSlideIndex st \<and> currentSlideIndex st < src then currentSlideIndex st + 1
          else currentSlideIndex st)
     \<and> 0 \<le> currentSlideIndex st' \<and> currentSlideIndex st' < int (length (slides st'))
     \<and> slides st' ! nat (currentSlideIndex st') = slides st ! nat (currentSlideIndex st)
     \<and> deck st' ! nat (currentSlideIndex st') = deck st ! nat (currentSlideIndex st)"
proof -
  let ?c = "currentSlideIndex st"
  let ?zs = "insertAt (nat dst) (slides st ! nat src) (removeAt (nat src) (slides st))"
  let ?st' = "st\<lparr>slides := ?zs,
             currentSlideIndex := newCurrentIndex src dst ?c,
             dragItem := None, dragOverItem := None\<rparr>"
  have run: "handleDragSort st = Inr ?st'" using assms(1-8) by (rule handleDragSort_valid)
  have s: "nat src < length (slides st)" and d: "nat dst < length (slides st)"
    and c: "nat ?c < length (slides st)" and ne: "nat src \<noteq> nat dst"
    using assms by simp_all
  let ?c' = "(if nat ?c = nat src then nat dst else if nat src < nat ?c \<and> nat ?c \<le> nat dst then nat ?c - 1
                    else if nat dst \<le> nat ?c \<and> nat ?c < nat src then nat ?c + 1 else nat ?c)"
  have mv: "?c' < length (slides st) \<and> ?zs ! ?c' = slides st ! nat ?c"
    using moved_nth[OF s d c ne] by simp
  have nc: "newCurrentIndex src dst ?c = int ?c'"
    using assms by (auto simp: newCurrentIndex_def)
  have len: "length ?zs = length (slides st)" using moved_props(1)[OF s d] .
  have rule: "newCurrentIndex src dst ?c =
         (if ?c = src then dst
          else if src < ?c \<and> ?c \<le> dst then ?c - 1
          else if dst \<le> ?c \<and> ?c < src then ?c + 1
          else ?c)"
    by (auto simp: newCurrentIndex_def)
  have refs: "?zs ! nat (newCurrentIndex src dst ?c) = slides st ! nat ?c"
    and bound: "newCurrentIndex src dst ?c < int (length ?zs)"
    using mv nc len by simp_all
  have pos: "0 \<le> newCurrentIndex src dst ?c" using nc by simp
  have nb: "nat (newCurrentIndex src dst ?c) < length ?zs" using bound pos by linarith
  have dk: "deck ?st' ! nat (newCurrentIndex src dst ?c) = deck st ! nat ?c"
    using refs nb c by (simp add: deck_def deckOf_def)
  show ?thesis
    apply (rule exI[of _ ?st'])
    using run rule refs bound pos dk by simp
qed

theorem reorder_cursor_witness:
  "\<exists>st'. handleDragSort (deck3\<lparr>currentSlideIndex := 2, dragItem := Some 0, dragOverItem := Some 2\<rparr>) = Inr st'
     \<and> currentSlideIndex st' = 1 \<and> deck st' ! 1 = placeholderSlide ''C''"
  using reorder_cursor[of "deck3\<lparr>currentSlideIndex := 2, dragItem := Some 0, dragOverItem := Some 2\<rparr>" 0 2]
  by (auto simp: deck3_def initialState_def deck_def deckOf_def)

text \<open>
  Claim C5. Deleting is a no-op on a deck of at most one slide and on a read-only deck, so
  a non-empty deck stays non-empty. Otherwise deleting a valid index \<open>j\<close> removes exactly
  that slide, leaves the cursor \<open>i\<close> unchanged when \<open>j > i\<close> and sets it to
  \<open>max 0 (i - 1)\<close> when \<open>j \<le> i\<close>; a valid cursor stays valid.
\<close>

theorem delete_slide_contract:
  "(int (length (slides st)) \<le> 1 \<or> isReadOnlyView st \<longrightarrow> handleDeleteSlide st j = st)
   \<and> (1 \<le> length (slides st) \<longrightarrow> 1 \<le> length (slides (handleDeleteSlide st j)))
   \<and> (2 \<le> length (slides st) \<and> \<not> isReadOnlyView st \<and> 0 \<le> j \<and> j < int (length (slides st)) \<longrightarrow>
        heap (handleDeleteSlide st j) = heap st
        \<and> slides (handleDeleteSlide st j) = removeAt (nat j) (slides st)
        \<and> deck (handleDeleteSlide st j) = removeAt (nat j) (deck st)
        \<and> (j > currentSlideIndex st \<longrightarrow> currentSlideIndex (handleDeleteSlide st j) = currentSlideIndex st)
        \<and> (j \<le> currentSlideIndex st \<longrightarrow>
             currentSlideIndex (handleDeleteSlide st j) = max 0 (currentSlideIndex st - 1))
        \<and> (0 \<le> currentSlideIndex st \<and> currentSlideIndex st < int (length (slides st)) \<longrightarrow>
             0 \<le> currentSlideIndex (handleDeleteSlide st j)
             \<and> currentSlideIndex (handleDeleteSlide st j) < int (length (slides (handleDeleteSlide st j)))))"
proof (intro conjI impI)
  assume "int (length (slides st)) \<le> 1 \<or> isReadOnlyView st"
  then show "handleDeleteSlide st j = st" by (auto simp: handleDeleteSlide_def)
next
  assume one: "1 \<le> length (slides st)"
  show "1 \<le> length (slides (handleDeleteSlide st j))"
  proof (cases "int (length (slides st)) \<le> 1 \<or> isReadOnlyView st")
    case True
    then have "handleDeleteSlide st j = st" by (auto simp: handleDeleteSlide_def)
    with one show ?thesis by simp
  next
    case False
    then have two: "2 \<le> length (slides st)" by simp
    have "length (filterNotIndex (slides st) j) \<ge> length (slides st) - 1"
    proof (cases "0 \<le> j \<and> j < int (length (slides st))")
      case True
      then have "nat j < length (slides st)" by linarith
      then have "length (removeAt (nat j) (slides st)) = length (slides st) - 1"
        by (rule length_removeAt)
      with True show ?thesis by (simp add: filterNotIndex_in)
    next
      case False
      then have "filterNotIndex (slides st) j = slides st"
        by (intro filterNotIndex_out) auto
      then show ?thesis by simp
    qed
    with two False show ?thesis by (simp add: handleDeleteSlide_def Let_def)
  qed
next
  assume a: "2 \<le> length (slides st) \<and> \<not> isReadOnlyView st \<and> 0 \<le> j \<and> j < int (length (slides st))"
  then have eq: "filterNotIndex (slides st) j = removeAt (nat j) (slides st)"
    by (simp add: filterNotIndex_in)
  show "heap (handleDeleteSlide st j) = heap st"
    using a by (simp add: handleDeleteSlide_def Let_def)
  show sl: "slides (handleDeleteSlide st j) = removeAt (nat j) (slides st)"
    using a eq by (simp add: handleDeleteSlide_def Let_def)
  show "deck (handleDeleteSlide st j) = removeAt (nat j) (deck st)"
    using a eq by (simp add: handleDeleteSlide_def Let_def deck_def deckOf_def map_removeAt)
  show "j > currentSlideIndex st \<Longrightarrow> currentSlideIndex (handleDeleteSlide st j) = currentSlideIndex st"
    using a by (simp add: handleDeleteSlide_def Let_def)
  show "j \<le> currentSlideIndex st \<Longrightarrow>
        currentSlideIndex (handleDeleteSlide st j) = max 0 (currentSlideIndex st - 1)"
    using a by (simp add: handleDeleteSlide_def Let_def)
  assume c: "0 \<le> currentSlideIndex st \<and> currentSlideIndex st < int (length (slides st))"
  from a have "nat j < length (slides st)" by linarith
  then have len: "length (removeAt (nat j) (slides st)) = length (slides st) - 1"
    by (rule length_removeAt)
  show "0 \<le> currentSlideIndex (handleDeleteSlide st j)"
    using a c by (simp add: handleDeleteSlide_def Let_def)
  show "currentSlideIndex (handleDeleteSlide st j) < int (length (slides (handleDeleteSlide st j)))"
    unfolding sl len using a c by (auto simp: handleDeleteSlide_def Let_def)
qed

theorem delete_slide_contract_witness:
  "handleDeleteSlide (deck3\<lparr>slides := [0]\<rparr>) 0 = deck3\<lparr>slides := [0]\<rparr>
   \<and> handleDeleteSlide (deck3\<lparr>isReadOnlyView := True\<rparr>) 1 = deck3\<lparr>isReadOnlyView := True\<rparr>
   \<and> slides (handleDeleteSlide (deck3\<lparr>currentSlideIndex := 2\<rparr>) 1) = [0, 2]
   \<and> currentSlideIndex (handleDeleteSlide (deck3\<lparr>currentSlideIndex := 2\<rparr>) 1) = 1
   \<and> currentSlideIndex (handleDeleteSlide (deck3\<lparr>currentSlideIndex := 0\<rparr>) 1) = 0
   \<and> currentSlideIndex (handleDeleteSlide (deck3\<lparr>currentSlideIndex := 0\<rparr>) 0) = 0"
  using delete_slide_contract[of "deck3\<lparr>slides := [0]\<rparr>" 0]
    delete_slide_contract[of "deck3\<lparr>isReadOnlyView := True\<rparr>" 1]
    delete_slide_contract[of "deck3\<lparr>currentSlideIndex := 2\<rparr>" 1]
    delete_slide_contract[of "deck3\<lparr>currentSlideIndex := 0\<rparr>" 1]
    delete_slide_contract[of "deck3\<lparr>currentSlideIndex := 0\<rparr>" 0]
  by (simp add: deck3_def initialState_def removeAt_def)

subsection \<open>Regeneration actions\<close>

lemma exclusive_loading [simp]:
  "exclusive (s\<lparr>imageUrl := Some ''loading''\<rparr>)" "exclusive (s\<lparr>imageUrl := Some ''error''\<rparr>)"
  "exclusive (s\<lparr>imageUrl := None\<rparr>)" "exclusive (s\<lparr>chartData := None\<rparr>)"
  by (simp_all add: exclusive_def hasImage_def)




lemma allExclusive_frame [simp]:
  "allExclusive (setActionLoading a i v st) = allExclusive st"
  "allExclusive (logError m st) = allExclusive st"
  "allExclusive (logWarn m st) = allExclusive st"
  "allExclusive (st\<lparr>slides := xs\<rparr>) = allExclusive st"
  by (simp_all add: allExclusive_def setActionLoading_def logError_def logWarn_def)













lemma slides_frame [simp]:
  "slides (assign r f st) = slides st" "slides (setActionLoading a i v st) = slides st"
  "slides (logError m st) = slides st" "slides (logWarn m st) = slides st"
  "heap (setActionLoading a i v st) = heap st"
  "heap (logError m st) = heap st" "heap (logWarn m st) = heap st"
  by (simp_all add: assign_def setActionLoading_def logError_def logWarn_def)


text \<open>
  Claim C9. When the enhance response has no bullet line, the handler changes nothing but
  the busy flag and the console, to which it adds one warning: every slide keeps its title,
  its content and its \<^verbatim>\<open>imageUrl\<close>, and no other part of the state moves.
\<close>

theorem enhance_zero_bullets:
  assumes "parseBullets responseText = []"
  shows "handleEnhanceSlide_resolve currentSlide index (Some responseText) st
           = Inr (setActionLoading ''enhance'' index False
                   (logWarn ''Failed to parse enhanced content:'' st))
       \<and> (\<exists>st'. handleEnhanceSlide st index (Some responseText) = Inr st'
             \<and> heap st' = heap st \<and> slides st' = slides st \<and> deck st' = deck st
             \<and> (\<not> isReadOnlyView st \<and> elemAt (slides st) index \<noteq> None \<longrightarrow>
                  console st' = console st @ [LogWarn ''Failed to parse enhanced content:'']))"
proof
  show r: "handleEnhanceSlide_resolve currentSlide index (Some responseText) st
           = Inr (setActionLoading ''enhance'' index False
                   (logWarn ''Failed to parse enhanced content:'' st))" for currentSlide st
    using assms by (simp add: handleEnhanceSlide_resolve_def)
  show "\<exists>st'. handleEnhanceSlide st index (Some responseText) = Inr st'
             \<and> heap st' = heap st \<and> slides st' = slides st \<and> deck st' = deck st
             \<and> (\<not> isReadOnlyView st \<and> elemAt (slides st) index \<noteq> None \<longrightarrow>
                  console st' = console st @ [LogWarn ''Failed to parse enhanced content:''])"
    by (auto simp: handleEnhanceSlide_def handleEnhanceSlide_start_def r Let_def deck_def
        setActionLoading_def logWarn_def logError_def split: option.splits)
qed


lemmas concrete_defs =
  deck3_def deckImg_def initialState_def placeholderSlide_def sampleChart_def
  elemAt_def assign_def setActionLoading_def logError_def logWarn_def dataUrl_def
  deck_def deckOf_def



lemma parse_enhanceNoBullets: "parseBullets enhanceNoBullets = []"
  by code_simp

lemma parse_enhanceResponse:
  "parseBullets enhanceResponse = [''b'']" "parseTitle enhanceResponse t = ''New''"
  by code_simp+

theorem enhance_zero_bullets_witness:
  "parseBullets enhanceNoBullets = []
   \<and> \<not> isl (handleEnhanceSlide deck3 0 (Some enhanceNoBullets))
   \<and> deck (projr (handleEnhanceSlide deck3 0 (Some enhanceNoBullets)))
       = [placeholderSlide ''A'', placeholderSlide ''B'', placeholderSlide ''C'']
   \<and> console (projr (handleEnhanceSlide deck3 0 (Some enhanceNoBullets)))
       = [LogWarn ''Failed to parse enhanced content:'']"
  using enhance_zero_bullets[of enhanceNoBullets 0 0 deck3] parse_enhanceNoBullets
  by (auto simp: concrete_defs)

text \<open>
  Claim C8 at a concrete deck: enhancing the first of three slides writes the new title and
  bullets into the slide object that the array from before the call still refers to, so the
  deck seen through the old array has changed.
\<close>

theorem enhance_mutates_shared_record:
  "\<not> isl (handleEnhanceSlide deck3 0 (Some enhanceResponse))
   \<and> deckOf (heap deck3) (slides deck3) ! 0 = placeholderSlide ''A''
   \<and> deckOf (heap (projr (handleEnhanceSlide deck3 0 (Some enhanceResponse)))) (slides deck3) ! 0
       = (placeholderSlide ''A'')\<lparr>title := ''New'', content := [''b'']\<rparr>"
  by (simp add: handleEnhanceSlide_def handleEnhanceSlide_start_def handleEnhanceSlide_resolve_def
      parse_enhanceResponse Let_def concrete_defs)


text \<open>
  The field edit, by contrast, builds a new slide object: the deck seen through the old
  array is unchanged, and the new deck differs in the edited field of the edited slide only.
\<close>

lemma deckOf_append:
  assumes "\<forall>x \<in> set arr. x < length h"
  shows "deckOf (h @ ys) arr = deckOf h arr"
  using assms by (simp add: deckOf_def nth_append)

lemma handleUpdateSlide_fresh:
  assumes "\<not> isReadOnlyView st" and "elemAt (slides st) index = Some r"
    and wf: "\<forall>x \<in> set (slides st). x < length (heap st)"
  shows "\<exists>st'. handleUpdateSlide st index fld = Inr st'
           \<and> deckOf (heap st') (slides st) = deck st
           \<and> deck st' = (deck st)[nat index := setField fld (deck st ! nat index)]"
proof -
  let ?new = "setField fld (heap st ! r)"
  let ?st' = "st\<lparr>heap := heap st @ [?new], slides := (slides st)[nat index := length (heap st)]\<rparr>"
  have run: "handleUpdateSlide st index fld = Inr ?st'"
    using assms by (simp add: handleUpdateSlide_def handleUpdateSlideFrom_def)
  have idx: "nat index < length (slides st)" and r: "slides st ! nat index = r"
    using assms(2) by (auto simp: elemAt_def split: if_splits)
  have old: "deckOf (heap ?st') (slides st) = deck st"
    using deckOf_append[OF wf] by (simp add: deck_def)
  have "deck ?st' = (deckOf (heap st @ [?new]) (slides st))[nat index := ?new]"
    by (simp add: deck_def deckOf_def map_update)
  also have "\<dots> = (deck st)[nat index := ?new]"
    using deckOf_append[OF wf] by (simp add: deck_def)
  finally have dk: "deck ?st' = (deck st)[nat index := ?new]" .
  have eq: "heap st ! r = deck st ! nat index"
    using idx r by (simp add: deck_def deckOf_def)
  show ?thesis
    apply (rule exI[of _ ?st'])
    using run old dk eq by simp
qed

subsection \<open>Generation pipeline\<close>

lemma progressLog_frame [simp]:
  "progressLog (setProgress v st) = progressLog st @ [v]"
  "progressLog (logError m st) = progressLog st"
  "progressLog (assign r f st) = progressLog st"
  by (simp_all add: setProgress_def logError_def assign_def)

lemma stepReports_0 [simp]: "stepReports tot a 0 = []"
  by (simp add: stepReports_def)
















lemma pipeline_frame [simp]:
  "deck (pipelineDone st) = deck st" "progressLog (pipelineDone st) = progressLog st @ [100]"
  "appStep (pipelineDone st) = StepPresentation"
  "progressLog (pipelineFailed st) = progressLog st" "appStep (pipelineFailed st) = StepOutline"
  "progressText (pipelineFailed st) = ''An error occurred. Please try again.''"
  by (simp_all add: pipelineDone_def pipelineFailed_def deck_def setProgress_def logError_def)









lemma length_stepReports [simp]: "length (stepReports tot a m) = m"
  by (simp add: stepReports_def)











end
